theory Spec2Isabelle
  imports Main
begin

section \<open>Errors and basic data\<close>

text \<open>
  The exceptions that the modelled parts of \<^verbatim>\<open>majs_notify/majsoul.py\<close> can raise.
  A function of the source that can raise returns a value of a sum type, with
  \<open>Inl\<close> for the exception, or pairs the state it leaves behind with an
  \<open>error option\<close> when the mutations made before the exception matter.
  \<open>DecodeError\<close> stands for whatever the codec or a generated message class raises on
  bytes it cannot decode.
\<close>

datatype error =
    ConnectionError
  | AssertionError
  | IndexError
  | AttributeError
  | ValueError string
  | TypeError
  | FileNotFoundError
  | JSONDecodeError
  | UnicodeDecodeError
  | DecodeError

type_synonym bytes = "nat list"

text \<open>What \<^verbatim>\<open>self._ws.recv()\<close> yields: a binary frame or a text frame.\<close>

datatype ws_message = Bytes bytes | Text string

text \<open>
  \<^verbatim>\<open>MajsoulDecodedMessage\<close> (declared in \<^verbatim>\<open>model.py\<close>, not under src/):
  the fields the connection reads. The decoded payload is opaque to the dispatch loop.
\<close>

record 'p MajsoulDecodedMessage =
  msg_type :: int
  req_index :: int
  method_name :: string
  payload :: 'p

text \<open>
  \<^verbatim>\<open>MajsoulProtoCodec\<close> (declared in \<^verbatim>\<open>codec.py\<close>, not under src/) is taken
  as a parameter: its three kind tags and its decoder.
\<close>

record 'p MajsoulProtoCodec =
  REQUEST :: int
  RESPONSE :: int
  NOTIFY :: int
  decode_message :: "bytes \<Rightarrow> error + 'p MajsoulDecodedMessage"

section \<open>Friends\<close>

text \<open>
  The current-match descriptor of a friend (\<^verbatim>\<open>playing\<close>, with \<^verbatim>\<open>playing.meta.mode_id\<close>
  flattened to \<open>mode_id\<close>), the friend entry of the registry (\<^verbatim>\<open>MajsoulFriend\<close>) and the
  activity snapshot of a state-change notification. The classes are declared in
  \<^verbatim>\<open>lib/lq\<close> and \<^verbatim>\<open>majsoul_friend.py\<close>, not under src/; the records hold the
  fields that the handlers read.
\<close>

record GameInfo =
  game_uuid :: string
  category :: int
  mode_id :: int

record MajsoulFriend =
  account_id :: int
  nickname :: string
  is_online :: bool
  playing :: GameInfo

record AccountActiveState =
  as_is_online :: bool
  as_playing :: GameInfo

record NotifyFriendStateChange =
  target_id :: int
  active_state :: AccountActiveState

record NotifyFriendChange =
  fc_account_id :: int
  fc_type :: int
  fc_friend :: MajsoulFriend

section \<open>The connection\<close>

text \<open>
  The coroutine objects that \<^verbatim>\<open>handle_notify\<close> puts on the queue: one constructor per
  handler, holding the notification it was called with.
\<close>

datatype 'p coroutine =
    Co_FriendStateChange "'p MajsoulDecodedMessage"
  | Co_FriendViewChange "'p MajsoulDecodedMessage"
  | Co_NewFriendApply "'p MajsoulDecodedMessage"
  | Co_FriendChange "'p MajsoulDecodedMessage"
  | Co_AnotherLogin

text \<open>
  The fields of \<^verbatim>\<open>MajsoulConnection\<close>. The transport \<open>ws\<close> and the background tasks are
  handles (numbers) into the runtime; an \<^verbatim>\<open>asyncio.Event\<close> of \<open>req_events\<close> is its flag,
  since every call creates an event of its own.
\<close>

record 'p MajsoulConnection =
  ws :: "nat option"
  req_events :: "int \<rightharpoonup> bool"
  res :: "int \<rightharpoonup> 'p MajsoulDecodedMessage"
  bg_tasks :: "nat list"
  queue :: "'p coroutine list"
  conn_account_id :: int
  conn_nick_name :: string
  friends :: "MajsoulFriend list"
  friend_apply_list :: "int list"

text \<open>\<^verbatim>\<open>MajsoulConnection.__init__\<close>.\<close>

definition init_connection :: "'p MajsoulConnection" where
  "init_connection =
     \<lparr>ws = None, req_events = Map.empty, res = Map.empty, bg_tasks = [], queue = [],
      conn_account_id = 0, conn_nick_name = [], friends = [], friend_apply_list = []\<rparr>"

subsection \<open>Routing of notifications\<close>

text \<open>
  \<^verbatim>\<open>handle_notify\<close>: the handler's coroutine is created and put on the unbounded queue;
  an unknown method name is only logged.
\<close>

definition handle_notify ::
  "'p MajsoulConnection \<Rightarrow> 'p MajsoulDecodedMessage \<Rightarrow> 'p MajsoulConnection" where
  "handle_notify s notify =
     (if method_name notify = ''.lq.NotifyFriendStateChange''
        then s\<lparr>queue := queue s @ [Co_FriendStateChange notify]\<rparr>
      else if method_name notify = ''.lq.NotifyFriendViewChange''
        then s\<lparr>queue := queue s @ [Co_FriendViewChange notify]\<rparr>
      else if method_name notify = ''.lq.NotifyNewFriendApply''
        then s\<lparr>queue := queue s @ [Co_NewFriendApply notify]\<rparr>
      else if method_name notify = ''.lq.NotifyFriendChange''
        then s\<lparr>queue := queue s @ [Co_FriendChange notify]\<rparr>
      else if method_name notify = ''.lq.NotifyAnotherLogin''
        then s\<lparr>queue := queue s @ [Co_AnotherLogin]\<rparr>
      else s)"

subsection \<open>The dispatch loop\<close>

text \<open>
  The body of the \<^verbatim>\<open>while True\<close> of \<^verbatim>\<open>dispatch_msg\<close> after decoding, on the decoded
  message \<open>data\<close>. The three \<^verbatim>\<open>if\<close>s of the source are tried in turn; the first one
  leaves the iteration (\<^verbatim>\<open>continue\<close>) when the index is not in \<open>req_events\<close>.
  \<^verbatim>\<open>handle_notify\<close> raises nothing in this model, so the \<^verbatim>\<open>except\<close> around it has no
  branch; a server request is only logged.
\<close>

definition dispatch_decoded ::
  "'p MajsoulProtoCodec \<Rightarrow> 'p MajsoulConnection \<Rightarrow> 'p MajsoulDecodedMessage
     \<Rightarrow> 'p MajsoulConnection" where
  "dispatch_decoded codec s data =
     (let idx = req_index data in
      if msg_type data = RESPONSE codec \<and> req_events s idx = None then s
      else
        let s1 = (if msg_type data = RESPONSE codec
                  then s\<lparr>res := (res s)(idx \<mapsto> data),
                         req_events := (req_events s)(idx \<mapsto> True)\<rparr>
                  else s)
        in if msg_type data = NOTIFY codec then handle_notify s1 data
           else s1)"

text \<open>
  One iteration on a received frame: the \<^verbatim>\<open>assert isinstance(msg, bytes)\<close>, the decoding,
  whose exception leaves the loop, and the routing.
\<close>

definition dispatch_frame ::
  "'p MajsoulProtoCodec \<Rightarrow> 'p MajsoulConnection \<Rightarrow> ws_message
     \<Rightarrow> error + 'p MajsoulConnection" where
  "dispatch_frame codec s msg =
     (case msg of
        Text _ \<Rightarrow> Inl AssertionError
      | Bytes b \<Rightarrow>
          (case decode_message codec b of
             Inl e \<Rightarrow> Inl e
           | Inr data \<Rightarrow> Inr (dispatch_decoded codec s data)))"

text \<open>
  The loop on the frames received so far. The source's loop never returns; \<open>Inr s\<close> is
  the connection after the frames of the list, \<open>Inl e\<close> the exception that ended the loop.
\<close>

fun dispatch_loop ::
  "'p MajsoulProtoCodec \<Rightarrow> 'p MajsoulConnection \<Rightarrow> ws_message list
     \<Rightarrow> error + 'p MajsoulConnection" where
  "dispatch_loop codec s [] = Inr s"
| "dispatch_loop codec s (msg # msgs) =
     (case dispatch_frame codec s msg of
        Inl e \<Rightarrow> Inl e
      | Inr s' \<Rightarrow> dispatch_loop codec s' msgs)"

definition dispatch_msg ::
  "'p MajsoulProtoCodec \<Rightarrow> 'p MajsoulConnection \<Rightarrow> ws_message list
     \<Rightarrow> error + 'p MajsoulConnection" where
  "dispatch_msg codec s msgs =
     (if ws s = None then Inl ConnectionError else dispatch_loop codec s msgs)"

text \<open>
  A codec for examples: a frame of two bytes is its kind tag and its index (the tags
  1, 2 and 3 are those of the service: notification, request, response).
\<close>

definition example_decode :: "bytes \<Rightarrow> error + unit MajsoulDecodedMessage" where
  "example_decode b =
     (case b of
        [t, i] \<Rightarrow> Inr \<lparr>msg_type = int t, req_index = int i, method_name = [], payload = ()\<rparr>
      | _ \<Rightarrow> Inl DecodeError)"

definition example_codec :: "unit MajsoulProtoCodec" where
  "example_codec = \<lparr>REQUEST = 2, RESPONSE = 3, NOTIFY = 1, decode_message = example_decode\<rparr>"

definition example_response :: "unit MajsoulDecodedMessage" where
  "example_response = \<lparr>msg_type = 3, req_index = 5, method_name = [], payload = ()\<rparr>"

text \<open>A connection with one call outstanding, of index 5.\<close>

definition example_waiting :: "unit MajsoulConnection" where
  "example_waiting = init_connection\<lparr>ws := Some 0, req_events := [5 \<mapsto> False]\<rparr>"

section \<open>Notification handlers\<close>

subsection \<open>Messages and the outbound sinks\<close>

text \<open>
  A message of the source is a string built from format templates. Here it is the list
  of the templates it was built from, each with its arguments; every template holds
  literal text, so a message is the empty string exactly when the list is empty, and
  \<^verbatim>\<open>msg += ...\<close> appends. One constructor per template of the modelled handlers:
  \<open>M_online\<close> and \<open>M_offline\<close> (lines 162 and 164, with the nickname);
  \<open>M_start_casual\<close>, \<open>M_start_ranked\<close>, \<open>M_start_contest\<close> and \<open>M_start_unknown\<close>
  (lines 180 to 186, for the categories 1, 2, 4 and any other); \<open>M_room\<close> (line 188,
  with the room name and the mode id); \<open>M_game_id\<close> (line 189); \<open>M_finished\<close>
  (line 199, with the nickname and the room name); \<open>M_paipu\<close> (line 203, with the
  match id and the encoded account id); \<open>M_already_friend\<close>, \<open>M_added_friend\<close>,
  \<open>M_removed_friend\<close> and \<open>M_updated_friend\<close> (lines 276, 282, 290 and 297).
\<close>

datatype msg_part =
    M_online string
  | M_offline string
  | M_start_casual string
  | M_start_ranked string
  | M_start_contest string
  | M_start_unknown string int
  | M_room string int
  | M_game_id string
  | M_finished string string
  | M_paipu string int
  | M_already_friend int
  | M_added_friend string
  | M_removed_friend string
  | M_updated_friend string

type_synonym message = "msg_part list"

text \<open>
  The two sinks, which belong to the hosting framework: \<^verbatim>\<open>send_msg_to_user\<close> with the
  target account and \<^verbatim>\<open>send_meta\<close>. A handler returns what it handed to them.
\<close>

datatype outbound = To_user int message | To_meta message

subsection \<open>Friend-list changes\<close>

text \<open>
  The loop of the branch \<^verbatim>\<open>data.type == 1\<close> of \<^verbatim>\<open>handle_FriendChange\<close>. Python runs the
  \<^verbatim>\<open>else\<close> clause of a \<^verbatim>\<open>for\<close> when the loop ends without \<^verbatim>\<open>break\<close>, so the loop
  returns whether it was left by \<^verbatim>\<open>break\<close> together with \<open>meta_msg\<close>. Its body has no
  \<^verbatim>\<open>break\<close>: a match only sets \<open>meta_msg\<close> (and logs it).
\<close>

fun FriendChange_add_loop :: "int \<Rightarrow> MajsoulFriend list \<Rightarrow> message \<Rightarrow> bool \<times> message" where
  "FriendChange_add_loop aid [] meta_msg = (False, meta_msg)"
| "FriendChange_add_loop aid (friend # rest) meta_msg =
     (if account_id friend = aid
      then FriendChange_add_loop aid rest [M_already_friend aid]
      else FriendChange_add_loop aid rest meta_msg)"

text \<open>
  The loop of the branch \<^verbatim>\<open>data.type == 2\<close>: the first friend of the account is removed
  from \<open>self.friends\<close> and the loop is left.
\<close>

fun FriendChange_remove_loop ::
  "int \<Rightarrow> MajsoulFriend list \<Rightarrow> MajsoulFriend list \<Rightarrow> message
     \<Rightarrow> MajsoulFriend list \<times> message" where
  "FriendChange_remove_loop aid [] self_friends meta_msg = (self_friends, meta_msg)"
| "FriendChange_remove_loop aid (friend # rest) self_friends meta_msg =
     (if account_id friend = aid
      then (remove1 friend self_friends, [M_removed_friend (nickname friend)])
      else FriendChange_remove_loop aid rest self_friends meta_msg)"

text \<open>
  The loop of the last branch: a match binds the loop variable to a new friend object
  and sets \<open>meta_msg\<close>; the list is not written.
\<close>

fun FriendChange_update_loop ::
  "int \<Rightarrow> MajsoulFriend \<Rightarrow> MajsoulFriend list \<Rightarrow> message \<Rightarrow> message" where
  "FriendChange_update_loop aid new [] meta_msg = meta_msg"
| "FriendChange_update_loop aid new (friend # rest) meta_msg =
     (if account_id friend = aid
      then FriendChange_update_loop aid new rest [M_updated_friend (nickname new)]
      else FriendChange_update_loop aid new rest meta_msg)"

text \<open>
  \<^verbatim>\<open>handle_FriendChange\<close>. \<open>fc_friend data\<close> is \<^verbatim>\<open>MajsoulFriend(data.friend)\<close>, the friend
  entry built from the notification.
\<close>

definition handle_FriendChange ::
  "NotifyFriendChange \<Rightarrow> 'p MajsoulConnection \<Rightarrow> outbound list \<times> 'p MajsoulConnection" where
  "handle_FriendChange data s =
     (let aid = fc_account_id data;
          (s', meta_msg) =
            (if fc_type data = 1 then
               (case FriendChange_add_loop aid (friends s) [] of
                  (broke, meta_msg) \<Rightarrow>
                    if \<not> broke then
                      (s\<lparr>friends := friends s @ [fc_friend data],
                         friend_apply_list :=
                           (if aid \<in> set (friend_apply_list s)
                            then remove1 aid (friend_apply_list s)
                            else friend_apply_list s)\<rparr>,
                       [M_added_friend (nickname (fc_friend data))])
                    else (s, meta_msg))
             else if fc_type data = 2 then
               (case FriendChange_remove_loop aid (friends s) (friends s) [] of
                  (fs, meta_msg) \<Rightarrow> (s\<lparr>friends := fs\<rparr>, meta_msg))
             else (s, FriendChange_update_loop aid (fc_friend data) (friends s) []))
      in (if meta_msg \<noteq> [] then [To_meta meta_msg] else [], s'))"

subsection \<open>Friend state changes\<close>

text \<open>
  The attribution file \<^verbatim>\<open>game_record.json\<close>, by what reading it gives: the file is
  missing; its bytes are not UTF-8; its text is not JSON; its text is JSON for a value
  that is not an object (an array, a string, a number, \<^verbatim>\<open>true\<close>, \<^verbatim>\<open>false\<close> or \<^verbatim>\<open>null\<close>); or
  it is a JSON object, as the handler itself writes it, from match ids to account ids.
  An object with values of another kind is handled by the code like one of account ids
  and is left out. Other failures of the first read (a file that cannot be opened,
  JSON that is nested too deeply) are not caught by the \<^verbatim>\<open>try\<close> either and leave the
  handler as \<open>Not_utf8\<close> does; they are left out, and the file can be written.
\<close>

datatype json_file =
    Missing
  | Not_utf8
  | Corrupt
  | Json_not_object
  | Json_object "string \<rightharpoonup> int"

text \<open>What \<^verbatim>\<open>json.load\<close> returned, bound to \<open>game_record\<close>: a dictionary or another value.\<close>

datatype loaded = Dict "string \<rightharpoonup> int" | Not_dict

text \<open>
  The first read, lines 166 to 172: \<^verbatim>\<open>FileNotFoundError\<close> and \<^verbatim>\<open>json.JSONDecodeError\<close> are
  caught and give the empty dictionary. \<^verbatim>\<open>UnicodeDecodeError\<close> is neither of the two and
  leaves the handler.
\<close>

definition guarded_load :: "json_file \<Rightarrow> error + loaded" where
  "guarded_load file =
     (case file of
        Missing \<Rightarrow> Inr (Dict Map.empty)
      | Not_utf8 \<Rightarrow> Inl UnicodeDecodeError
      | Corrupt \<Rightarrow> Inr (Dict Map.empty)
      | Json_not_object \<Rightarrow> Inr Not_dict
      | Json_object m \<Rightarrow> Inr (Dict m))"

text \<open>The second read, lines 195 and 196, which is inside no \<^verbatim>\<open>try\<close>.\<close>

definition unguarded_load :: "json_file \<Rightarrow> error + loaded" where
  "unguarded_load file =
     (case file of
        Missing \<Rightarrow> Inl FileNotFoundError
      | Not_utf8 \<Rightarrow> Inl UnicodeDecodeError
      | Corrupt \<Rightarrow> Inl JSONDecodeError
      | Json_not_object \<Rightarrow> Inr Not_dict
      | Json_object m \<Rightarrow> Inr (Dict m))"

text \<open>
  \<^verbatim>\<open>game_record[key] = value\<close> with a string as key: a value that is no dictionary
  raises \<^verbatim>\<open>TypeError\<close>.
\<close>

definition set_item :: "loaded \<Rightarrow> string \<Rightarrow> int \<Rightarrow> error + loaded" where
  "set_item game_record k v =
     (case game_record of
        Dict m \<Rightarrow> Inr (Dict (m(k \<mapsto> v)))
      | Not_dict \<Rightarrow> Inl TypeError)"

text \<open>The file after \<^verbatim>\<open>json.dump(game_record, f)\<close>, lines 207 and 208.\<close>

definition dump :: "loaded \<Rightarrow> json_file" where
  "dump game_record = (case game_record of Dict m \<Rightarrow> Json_object m | Not_dict \<Rightarrow> Json_not_object)"

text \<open>
  Modelled from the spec: the truth value of a current-match descriptor in a condition
  (\<^verbatim>\<open>not active_state.playing\<close>, \<^verbatim>\<open>friend.playing\<close>); its class is generated code of
  \<^verbatim>\<open>lib/lq\<close>, which is not under src/. The spec's data model has the descriptor present
  or absent; the absent descriptor is the one with every field at its default (empty
  match id, category 0, mode 0), and it alone is false.
\<close>

definition msg_bool :: "GameInfo \<Rightarrow> bool" where
  "msg_bool g = (game_uuid g \<noteq> [] \<or> category g \<noteq> 0 \<or> mode_id g \<noteq> 0)"

text \<open>
  Modelled from the spec: \<^verbatim>\<open>MajsoulFriend.change_state\<close>, of \<^verbatim>\<open>majsoul_friend.py\<close>, which is
  not under src/. The spec has the friend's stored state replaced with the new snapshot.
\<close>

definition change_state :: "MajsoulFriend \<Rightarrow> AccountActiveState \<Rightarrow> MajsoulFriend" where
  "change_state friend a = friend\<lparr>is_online := as_is_online a, playing := as_playing a\<rparr>"

text \<open>
  The body of the loop of \<^verbatim>\<open>handle_FriendStateChange\<close> for a friend of the target
  account, from the message and the file so far to the new message, file and friend.
  The table \<^verbatim>\<open>ModeId2Room\<close> (of \<^verbatim>\<open>constants.py\<close>) and \<^verbatim>\<open>encode_account_id\<close> (of
  \<^verbatim>\<open>utils/api/remote.py\<close>) are parameters. The first read of the file is inside
  \<^verbatim>\<open>try\<close>; the second one, of the branch for a match that ended, is not. The two
  branches that record a match write an item of \<open>game_record\<close> (lines 191 and 206). The
  file is written at the end of every path.
\<close>

definition FriendStateChange_body ::
  "(int \<rightharpoonup> string) \<Rightarrow> (int \<Rightarrow> int) \<Rightarrow> AccountActiveState \<Rightarrow> MajsoulFriend \<Rightarrow> message
     \<Rightarrow> json_file \<Rightarrow> error + (message \<times> json_file \<times> MajsoulFriend)" where
  "FriendStateChange_body ModeId2Room encode_account_id a friend msg file =
     (let nick_name = nickname friend;
          msg1 = (if as_is_online a \<and> \<not> is_online friend then [M_online nick_name]
                  else if \<not> as_is_online a \<and> is_online friend then [M_offline nick_name]
                  else msg)
      in case guarded_load file of
           Inl e \<Rightarrow> Inl e
         | Inr game_record \<Rightarrow>
             (let active_uuid = game_uuid (as_playing a)
              in if active_uuid \<noteq> [] \<and> game_uuid (playing friend) = [] then
                   (let cat = category (as_playing a);
                        mid = mode_id (as_playing a);
                        msg2 = (if cat = 1 then [M_start_casual nick_name]
                                else if cat = 2 then [M_start_ranked nick_name]
                                else if cat = 4 then [M_start_contest nick_name]
                                else [M_start_unknown nick_name cat]);
                        rome_name = (case ModeId2Room mid of Some r \<Rightarrow> r | None \<Rightarrow> [])
                    in case set_item game_record active_uuid (account_id friend) of
                         Inl e \<Rightarrow> Inl e
                       | Inr game_record' \<Rightarrow>
                           Inr (msg2 @ [M_room rome_name mid] @ [M_game_id active_uuid],
                                dump game_record',
                                change_state friend a))
                 else if \<not> msg_bool (as_playing a) \<and> msg_bool (playing friend) then
                   (case unguarded_load file of
                      Inl e \<Rightarrow> Inl e
                    | Inr game_record2 \<Rightarrow>
                        (let mid = mode_id (playing friend);
                             room_name = (case ModeId2Room mid of Some r \<Rightarrow> r | None \<Rightarrow> []);
                             uuid = game_uuid (playing friend);
                             encode_aid = encode_account_id (account_id friend)
                         in case set_item game_record2 uuid (account_id friend) of
                              Inl e \<Rightarrow> Inl e
                            | Inr game_record' \<Rightarrow>
                                Inr ([M_finished nick_name room_name]
                                       @ [M_paipu uuid encode_aid],
                                     dump game_record',
                                     change_state friend a)))
                 else Inr (msg1, dump game_record, change_state friend a)))"

text \<open>
  The loop over \<open>self.friends\<close>. An exception leaves the friends before the failing one
  as they were updated and the others, the message and the file as they were.
\<close>

fun FriendStateChange_loop ::
  "(int \<rightharpoonup> string) \<Rightarrow> (int \<Rightarrow> int) \<Rightarrow> AccountActiveState \<Rightarrow> int \<Rightarrow> MajsoulFriend list
     \<Rightarrow> message \<Rightarrow> json_file
     \<Rightarrow> error option \<times> MajsoulFriend list \<times> message \<times> json_file" where
  "FriendStateChange_loop R E a target_user [] msg file = (None, [], msg, file)"
| "FriendStateChange_loop R E a target_user (friend # rest) msg file =
     (if account_id friend = target_user then
        (case FriendStateChange_body R E a friend msg file of
           Inl e \<Rightarrow> (Some e, friend # rest, msg, file)
         | Inr (msg', file', friend') \<Rightarrow>
             (case FriendStateChange_loop R E a target_user rest msg' file' of
                (r, rest', m, fl) \<Rightarrow> (r, friend' # rest', m, fl)))
      else
        (case FriendStateChange_loop R E a target_user rest msg file of
           (r, rest', m, fl) \<Rightarrow> (r, friend # rest', m, fl)))"

text \<open>
  \<^verbatim>\<open>handle_FriendStateChange\<close>: the exception if one was raised, what was sent, the file
  and the connection afterwards.
\<close>

definition handle_FriendStateChange ::
  "(int \<rightharpoonup> string) \<Rightarrow> (int \<Rightarrow> int) \<Rightarrow> NotifyFriendStateChange \<Rightarrow> json_file
     \<Rightarrow> 'p MajsoulConnection
     \<Rightarrow> error option \<times> outbound list \<times> json_file \<times> 'p MajsoulConnection" where
  "handle_FriendStateChange R E data file s =
     (let target_user = target_id data in
      case FriendStateChange_loop R E (active_state data) target_user (friends s) [] file of
        (r, friends', msg, file') \<Rightarrow>
          (r,
           (if r = None \<and> msg \<noteq> [] then [To_user target_user msg] else []),
           file',
           s\<lparr>friends := friends'\<rparr>))"

text \<open>
  The same notification handled twice, the second time on the file and the connection
  that the first time left: the exception, what was sent and the connection after each
  of the two.
\<close>

definition FriendStateChange_twice ::
  "(int \<rightharpoonup> string) \<Rightarrow> (int \<Rightarrow> int) \<Rightarrow> NotifyFriendStateChange \<Rightarrow> json_file
     \<Rightarrow> 'p MajsoulConnection
     \<Rightarrow> (error option \<times> outbound list \<times> 'p MajsoulConnection)
       \<times> (error option \<times> outbound list \<times> 'p MajsoulConnection)" where
  "FriendStateChange_twice R E data file s =
     (case handle_FriendStateChange R E data file s of
        (r1, out1, file1, s1) \<Rightarrow>
          (case handle_FriendStateChange R E data file1 s1 of
             (r2, out2, file2, s2) \<Rightarrow> ((r1, out1, s1), (r2, out2, s2))))"

subsection \<open>Example data\<close>

definition no_game :: GameInfo where
  "no_game = \<lparr>game_uuid = [], category = 0, mode_id = 0\<rparr>"

definition game_g1 :: GameInfo where
  "game_g1 = \<lparr>game_uuid = ''g1'', category = 2, mode_id = 12\<rparr>"

text \<open>A friend of account 7 who is online and in a match, and one who is idle.\<close>

definition friend7_playing :: MajsoulFriend where
  "friend7_playing = \<lparr>account_id = 7, nickname = ''Ann'', is_online = True, playing = game_g1\<rparr>"

definition friend7_idle :: MajsoulFriend where
  "friend7_idle = \<lparr>account_id = 7, nickname = ''Ann'', is_online = True, playing = no_game\<rparr>"

text \<open>The notification that friend 7 is online and in no match.\<close>

definition notify7_idle :: NotifyFriendStateChange where
  "notify7_idle = \<lparr>target_id = 7, active_state = \<lparr>as_is_online = True, as_playing = no_game\<rparr>\<rparr>"

text \<open>The notification that account 7 was added as a friend.\<close>

definition notify7_added :: NotifyFriendChange where
  "notify7_added = \<lparr>fc_account_id = 7, fc_type = 1, fc_friend = friend7_idle\<rparr>"

definition example_rooms :: "int \<rightharpoonup> string" where
  "example_rooms = [12 \<mapsto> ''room12'']"

definition example_encode :: "int \<Rightarrow> int" where
  "example_encode n = n + 1000"

definition conn_with_friends :: "MajsoulFriend list \<Rightarrow> unit MajsoulConnection" where
  "conn_with_friends fs = init_connection\<lparr>ws := Some 0, friends := fs\<rparr>"

section \<open>Fetching a match record\<close>

subsection \<open>Strings and lists of Python\<close>

text \<open>
  \<^verbatim>\<open>s.split(c)\<close> for a separator of one character: the pieces between the occurrences of
  \<open>c\<close>, of which there is always at least one.
\<close>

fun split_on :: "char \<Rightarrow> string \<Rightarrow> string list" where
  "split_on c [] = [[]]"
| "split_on c (x # xs) =
     (if x = c then [] # split_on c xs
      else (case split_on c xs of
              w # pieces \<Rightarrow> (x # w) # pieces
            | [] \<Rightarrow> [[x]]))"

text \<open>\<^verbatim>\<open>xs[i]\<close> for an index that is not negative.\<close>

definition py_index :: "'a list \<Rightarrow> nat \<Rightarrow> error + 'a" where
  "py_index xs i = (if i < length xs then Inr (xs ! i) else Inl IndexError)"

definition is_digit :: "char \<Rightarrow> bool" where
  "is_digit c = (c \<in> set ''0123456789'')"

text \<open>
  A string of Python is taken by its bytes in UTF-8, so a character of ASCII is one byte
  below 128, and cutting at an ASCII character is the same on the bytes.
\<close>

definition is_ascii :: "char \<Rightarrow> bool" where
  "is_ascii c = ((of_char c :: nat) < 128)"

text \<open>The white space that \<^verbatim>\<open>int\<close> skips around an ASCII string: space and 0x09 to 0x0D.\<close>

definition is_space :: "char \<Rightarrow> bool" where
  "is_space c = (c \<in> set [CHR '' '', CHR 0x09, CHR 0x0A, CHR 0x0B, CHR 0x0C, CHR 0x0D])"

definition digits_value :: "string \<Rightarrow> nat" where
  "digits_value ds = foldl (\<lambda>n c. 10 * n + (of_char c - 48)) 0 ds"

text \<open>
  What \<^verbatim>\<open>int\<close> takes from the interpreter and not from its argument:
  \<open>int_max_str_digits\<close>, the limit \<^verbatim>\<open>sys.get_int_max_str_digits()\<close> on the digits of a
  string that is converted (4300 unless the interpreter was started otherwise, 0 for no
  limit; the code does not set it), and \<open>int_unicode\<close>, the result of \<^verbatim>\<open>int\<close> on a
  string with a character outside ASCII, which depends on the Unicode database (digits
  and white space of other scripts are accepted).
\<close>

record interpreter =
  int_max_str_digits :: nat
  int_unicode :: "string \<Rightarrow> error + int"

text \<open>
  The run of digits and underscores that \<^verbatim>\<open>int\<close> scans is well formed when it starts and
  ends with a digit and has no two underscores in a row; the flag says that the
  character before was a digit.
\<close>

fun int_body_ok :: "bool \<Rightarrow> string \<Rightarrow> bool" where
  "int_body_ok prev_digit [] = prev_digit"
| "int_body_ok prev_digit (c # cs) =
     (if is_digit c then int_body_ok True cs
      else if c = CHR ''_'' \<and> prev_digit then int_body_ok False cs
      else False)"

text \<open>
  \<^verbatim>\<open>int(s)\<close> on a string, in base 10, as CPython converts it: white space around is
  skipped, one sign is read, then digits with single underscores between them are
  scanned; a malformed run is an invalid literal; more than 640 digits that exceed a
  positive limit are refused (leading zeros count, underscores do not); no digit, or
  anything left after the run, is an invalid literal. The messages of the two errors are
  given without the numbers and the literal that Python puts into them.
\<close>

definition py_int :: "interpreter \<Rightarrow> string \<Rightarrow> error + int" where
  "py_int py s =
     (if \<not> list_all is_ascii s then int_unicode py s
      else
        (let t = dropWhile is_space (rev (dropWhile is_space (rev s)));
             (sign, body) = (case t of
                               [] \<Rightarrow> (1, [])
                             | c # r \<Rightarrow> if c = CHR ''-'' then (- 1, r)
                                        else if c = CHR ''+'' then (1, r)
                                        else (1, t));
             run = takeWhile (\<lambda>c. is_digit c \<or> c = CHR ''_'') body;
             left = dropWhile (\<lambda>c. is_digit c \<or> c = CHR ''_'') body;
             ds = filter is_digit run
         in if run \<noteq> [] \<and> \<not> int_body_ok False run
              then Inl (ValueError ''invalid literal for int() with base 10'')
            else if 640 < length ds \<and> 0 < int_max_str_digits py
                      \<and> int_max_str_digits py < length ds
              then Inl (ValueError ''Exceeds the limit for integer string conversion'')
            else if run = [] \<or> left \<noteq> []
              then Inl (ValueError ''invalid literal for int() with base 10'')
            else Inr (sign * int (digits_value ds))))"

subsection \<open>The composite match identifier\<close>

text \<open>
  The first part of \<^verbatim>\<open>fetchLogs\<close>: the log id and the target account id of a match
  identifier. \<^verbatim>\<open>decode_log_id\<close> and \<^verbatim>\<open>decode_account_id\<close> (of \<^verbatim>\<open>utils/api/remote.py\<close>,
  not under src/) are parameters. \<^verbatim>\<open>seps[1][0]\<close> raises on an empty second
  piece.
\<close>

definition fetchLogs_ids ::
  "interpreter \<Rightarrow> (string \<Rightarrow> string) \<Rightarrow> (int \<Rightarrow> int) \<Rightarrow> string
     \<Rightarrow> error + (string \<times> int option)" where
  "fetchLogs_ids py decode_log_id decode_account_id game_id =
     (let seps = split_on CHR ''_'' game_id in
      case py_index seps 0 of
        Inl e \<Rightarrow> Inl e
      | Inr seps0 \<Rightarrow>
          (let log_id = (if length seps \<ge> 3 \<and> seps ! 2 = ''2''
                         then decode_log_id seps0 else seps0)
           in if length seps \<ge> 2 then
                (case seps ! 1 of
                   [] \<Rightarrow> Inl IndexError
                 | c # r \<Rightarrow>
                     if c = CHR ''a'' then
                       (case py_int py r of
                          Inl e \<Rightarrow> Inl e
                        | Inr n \<Rightarrow> Inr (log_id, Some (decode_account_id n)))
                     else
                       (case py_int py (seps ! 1) of
                          Inl e \<Rightarrow> Inl e
                        | Inr n \<Rightarrow> Inr (log_id, Some n)))
              else Inr (log_id, None)))"

subsection \<open>The action list\<close>

text \<open>
  The messages of \<^verbatim>\<open>lib/lq\<close> that \<^verbatim>\<open>fetchLogs\<close> reads, and \<^verbatim>\<open>MjsLogItem\<close> of \<^verbatim>\<open>model.py\<close>,
  with the fields that it reads or writes.
\<close>

record Wrapper =
  wr_name :: string
  wr_data :: bytes

record GameAction =
  result :: bytes

record GameDetailRecords =
  version :: int
  records :: "bytes list"
  actions :: "GameAction list"

record 'm MjsLogItem =
  item_name :: string
  item_data :: 'm

text \<open>
  What the two loops do with one wrapped record. The parsers are parameters:
  \<open>Wrapper_parse\<close> is \<^verbatim>\<open>liblq.Wrapper().parse\<close> and \<open>liblq_parse name\<close> is
  \<^verbatim>\<open>getattr(liblq, name)().parse\<close>, which raises when \<^verbatim>\<open>liblq\<close> has no such class or the
  bytes do not parse.
\<close>

definition unwrap_record ::
  "(bytes \<Rightarrow> error + Wrapper) \<Rightarrow> (string \<Rightarrow> bytes \<Rightarrow> error + 'm) \<Rightarrow> bytes
     \<Rightarrow> error + 'm MjsLogItem" where
  "unwrap_record Wrapper_parse liblq_parse v =
     (case Wrapper_parse v of
        Inl e \<Rightarrow> Inl e
      | Inr raw \<Rightarrow>
          (case py_index (split_on CHR ''.'' (wr_name raw)) 2 of
             Inl e \<Rightarrow> Inl e
           | Inr name \<Rightarrow>
               (case liblq_parse name (wr_data raw) of
                  Inl e \<Rightarrow> Inl e
                | Inr msg \<Rightarrow> Inr \<lparr>item_name = name, item_data = msg\<rparr>)))"

text \<open>The loop over \<^verbatim>\<open>payload.records\<close>, with \<open>action_list\<close> as it grows.\<close>

fun records_loop ::
  "(bytes \<Rightarrow> error + Wrapper) \<Rightarrow> (string \<Rightarrow> bytes \<Rightarrow> error + 'm) \<Rightarrow> bytes list
     \<Rightarrow> 'm MjsLogItem list \<Rightarrow> error + 'm MjsLogItem list" where
  "records_loop W L [] action_list = Inr action_list"
| "records_loop W L (v # vs) action_list =
     (case unwrap_record W L v of
        Inl e \<Rightarrow> Inl e
      | Inr item \<Rightarrow> records_loop W L vs (action_list @ [item]))"

text \<open>The loop over \<^verbatim>\<open>payload.actions\<close>; a bytes value is true when it is not empty.\<close>

fun actions_loop ::
  "(bytes \<Rightarrow> error + Wrapper) \<Rightarrow> (string \<Rightarrow> bytes \<Rightarrow> error + 'm) \<Rightarrow> GameAction list
     \<Rightarrow> 'm MjsLogItem list \<Rightarrow> error + 'm MjsLogItem list" where
  "actions_loop W L [] action_list = Inr action_list"
| "actions_loop W L (action # rest) action_list =
     (if result action \<noteq> [] \<and> length (result action) > 0 then
        (case unwrap_record W L (result action) of
           Inl e \<Rightarrow> Inl e
         | Inr item \<Rightarrow> actions_loop W L rest (action_list @ [item]))
      else actions_loop W L rest action_list)"

text \<open>The part of \<^verbatim>\<open>fetchLogs\<close> that builds \<open>action_list\<close> from the decoded payload \<open>p\<close>.\<close>

definition fetchLogs_action_list ::
  "(bytes \<Rightarrow> error + Wrapper) \<Rightarrow> (string \<Rightarrow> bytes \<Rightarrow> error + 'm) \<Rightarrow> GameDetailRecords
     \<Rightarrow> error + 'm MjsLogItem list" where
  "fetchLogs_action_list W L p =
     (if version p < 210715 \<and> length (records p) > 0
      then records_loop W L (records p) []
      else actions_loop W L (actions p) [])"

text \<open>
  The spec's words, for comparison: each wrapped record of a list is unwrapped to its
  type name and decoded message, in the order of the list; the first failure is the
  failure of the whole.
\<close>

fun spec_unwrap_all ::
  "(bytes \<Rightarrow> error + Wrapper) \<Rightarrow> (string \<Rightarrow> bytes \<Rightarrow> error + 'm) \<Rightarrow> bytes list
     \<Rightarrow> error + 'm MjsLogItem list" where
  "spec_unwrap_all W L [] = Inr []"
| "spec_unwrap_all W L (v # vs) =
     (case unwrap_record W L v of
        Inl e \<Rightarrow> Inl e
      | Inr item \<Rightarrow>
          (case spec_unwrap_all W L vs of
             Inl e \<Rightarrow> Inl e
           | Inr items \<Rightarrow> Inr (item # items)))"

text \<open>Parsers and payloads for examples: every wrapper names a new round.\<close>

definition example_Wrapper_parse :: "bytes \<Rightarrow> error + Wrapper" where
  "example_Wrapper_parse b = Inr \<lparr>wr_name = ''.lq.RecordNewRound'', wr_data = b\<rparr>"

definition example_liblq_parse :: "string \<Rightarrow> bytes \<Rightarrow> error + bytes" where
  "example_liblq_parse name b = Inr b"

text \<open>
  An interpreter with the default limit; what it makes of strings outside ASCII plays no
  part in the examples.
\<close>

definition example_interpreter :: interpreter where
  "example_interpreter =
     \<lparr>int_max_str_digits = 4300,
      int_unicode = (\<lambda>s. Inl (ValueError ''invalid literal for int() with base 10''))\<rparr>"

definition example_decode_log_id :: "string \<Rightarrow> string" where
  "example_decode_log_id s = rev s"

definition example_decode_account_id :: "int \<Rightarrow> int" where
  "example_decode_account_id n = n - 1000"

text \<open>An old record with an empty flat list and one structured action with a result.\<close>

definition payload_old_structured :: GameDetailRecords where
  "payload_old_structured = \<lparr>version = 200101, records = [], actions = [\<lparr>result = [7]\<rparr>]\<rparr>"

text \<open>An old record with a flat list, and a new one with a structured action without result.\<close>

definition payload_old_flat :: GameDetailRecords where
  "payload_old_flat = \<lparr>version = 200101, records = [[1], [2]], actions = [\<lparr>result = [7]\<rparr>]\<rparr>"

definition payload_new :: GameDetailRecords where
  "payload_new =
     \<lparr>version = 210715, records = [[1]], actions = [\<lparr>result = [7]\<rparr>, \<lparr>result = []\<rparr>, \<lparr>result = [8]\<rparr>]\<rparr>"

section \<open>Calls, authentication and the manager\<close>

subsection \<open>Calls\<close>

text \<open>
  The decoded answer of the service to a call, with the fields that the modelled
  callers read: \<^verbatim>\<open>has_account\<close> of the token check, \<^verbatim>\<open>account_id\<close> and
  \<^verbatim>\<open>account.nickname\<close> of the login, \<^verbatim>\<open>error.code\<close> of a common answer.
\<close>

record response =
  has_account :: bool
  resp_account_id :: int
  resp_nickname :: string
  error_code :: int

text \<open>What a coroutine did that can be seen from outside: a call, by its method, or a sleep.\<close>

datatype effect = Rpc string | Sleep nat

fun is_rpc :: "effect \<Rightarrow> bool" where
  "is_rpc (Rpc _) = True"
| "is_rpc (Sleep _) = False"

text \<open>
  \<^verbatim>\<open>rpc_call\<close>, as its caller sees it: it raises on a connection without transport, and
  else sends the request and returns the payload of the answer. The service is a
  parameter: \<open>server n method\<close> is its answer to the call of \<open>method\<close> made after \<open>n\<close>
  earlier calls. The service is taken to answer every call; a call without answer would
  suspend its caller forever.
\<close>

definition rpc_call ::
  "(nat \<Rightarrow> string \<Rightarrow> response) \<Rightarrow> 'p MajsoulConnection \<Rightarrow> effect list \<Rightarrow> string
     \<Rightarrow> error + (response \<times> effect list)" where
  "rpc_call server s trace method =
     (if ws s = None then Inl ConnectionError
      else Inr (server (length (filter is_rpc trace)) method, trace @ [Rpc method]))"

text \<open>\<^verbatim>\<open>check_alive\<close>.\<close>

definition check_alive ::
  "(nat \<Rightarrow> string \<Rightarrow> response) \<Rightarrow> 'p MajsoulConnection \<Rightarrow> error + bool" where
  "check_alive server s =
     (if ws s = None then Inr False
      else (case rpc_call server s [] ''.lq.Lobby.heatbeat'' of
              Inl e \<Rightarrow> Inl e
            | Inr (resp, _) \<Rightarrow> if error_code resp \<noteq> 0 then Inr False else Inr True))"

subsection \<open>Authentication\<close>

text \<open>
  \<^verbatim>\<open>accessTokenLogin\<close>: the exception if one was raised, the calls and sleeps made, in
  order, and the connection afterwards. The payloads of the requests are left out.
\<close>

definition accessTokenLogin ::
  "(nat \<Rightarrow> string \<Rightarrow> response) \<Rightarrow> 'p MajsoulConnection
     \<Rightarrow> error option \<times> effect list \<times> 'p MajsoulConnection" where
  "accessTokenLogin server s =
     (case rpc_call server s [] ''.lq.Lobby.oauth2Check'' of
        Inl e \<Rightarrow> (Some e, [], s)
      | Inr (resp0, t0) \<Rightarrow>
          (case (if \<not> has_account resp0 then
                   (case rpc_call server s (t0 @ [Sleep 2]) ''.lq.Lobby.oauth2Check'' of
                      Inl e \<Rightarrow> Inl (e, t0 @ [Sleep 2])
                    | Inr (resp1, t) \<Rightarrow> Inr (resp1, t))
                 else Inr (resp0, t0)) of
             Inl (e, t) \<Rightarrow> (Some e, t, s)
           | Inr (resp, t1) \<Rightarrow>
               if \<not> has_account resp then (Some (ValueError ''Failed to check account''), t1, s)
               else
                 (case rpc_call server s t1 ''.lq.Lobby.oauth2Login'' of
                    Inl e \<Rightarrow> (Some e, t1, s)
                  | Inr (login, t2) \<Rightarrow>
                      if resp_account_id login = 0
                      then (Some (ValueError ''Failed to login''), t2, s)
                      else
                        (let s' = s\<lparr>conn_account_id := resp_account_id login,
                                     conn_nick_name := resp_nickname login\<rparr>
                         in case rpc_call server s' t2 ''.lq.Lobby.loginBeat'' of
                              Inl e \<Rightarrow> (Some e, t2, s')
                            | Inr (beat, t3) \<Rightarrow>
                                if error_code beat \<noteq> 0
                                then (Some (ValueError ''Failed to loginBeat''), t3, s')
                                else (None, t3, s')))))"

subsection \<open>The manager\<close>

record 'p MajsoulManager =
  conn :: "'p MajsoulConnection list"

text \<open>
  The runtime, as far as the manager acts on it: the background tasks that were
  cancelled and the transports that were closed, by their handles.
\<close>

record runtime =
  cancelled :: "nat set"
  closed :: "nat set"

text \<open>The answer to \<^verbatim>\<open>.lq.Lobby.fetchInfo\<close>: the friends, as entries, and the applicants.\<close>

record ResFetchInfo =
  fi_friends :: "MajsoulFriend list"
  fi_applies :: "int list"

text \<open>\<^verbatim>\<open>fetchInfo\<close>, with its call as a parameter.\<close>

definition fetchInfo ::
  "('p MajsoulConnection \<Rightarrow> error + ResFetchInfo) \<Rightarrow> 'p MajsoulConnection
     \<Rightarrow> error + 'p MajsoulConnection" where
  "fetchInfo rpc_fetchInfo s =
     (case rpc_fetchInfo s of
        Inl e \<Rightarrow> Inl e
      | Inr resp \<Rightarrow>
          Inr (s\<lparr>friends := friends s @ fi_friends resp,
                 friend_apply_list := friend_apply_list s @ fi_applies resp\<rparr>))"

text \<open>
  The loop of \<^verbatim>\<open>start\<close> over the access tokens, on \<open>self.conn\<close> as it grows.
  \<^verbatim>\<open>createMajsoulConnection\<close> needs the network and is a parameter. A connection is
  appended before its friends are fetched.
\<close>

fun start_loop ::
  "(string \<Rightarrow> error + 'p MajsoulConnection)
     \<Rightarrow> ('p MajsoulConnection \<Rightarrow> error + ResFetchInfo) \<Rightarrow> string list
     \<Rightarrow> 'p MajsoulConnection list \<Rightarrow> error option \<times> 'p MajsoulConnection list" where
  "start_loop create rpc_fetchInfo [] self_conn = (None, self_conn)"
| "start_loop create rpc_fetchInfo (access_token # rest) self_conn =
     (case create access_token of
        Inl e \<Rightarrow> (Some e, self_conn)
      | Inr c \<Rightarrow>
          (case fetchInfo rpc_fetchInfo c of
             Inl e \<Rightarrow> (Some e, self_conn @ [c])
           | Inr c' \<Rightarrow> start_loop create rpc_fetchInfo rest (self_conn @ [c'])))"

text \<open>What \<^verbatim>\<open>start\<close> returns: the first session, or the message that no token was found.\<close>

datatype 'p started = Session "'p MajsoulConnection" | No_token

text \<open>\<^verbatim>\<open>start\<close>; \<open>cookies\<close> is what \<^verbatim>\<open>MajsUser.get_all_cookie()\<close> yields.\<close>

definition start ::
  "string list \<Rightarrow> (string \<Rightarrow> error + 'p MajsoulConnection)
     \<Rightarrow> ('p MajsoulConnection \<Rightarrow> error + ResFetchInfo) \<Rightarrow> 'p MajsoulManager
     \<Rightarrow> (error + 'p started) \<times> 'p MajsoulManager" where
  "start cookies create rpc_fetchInfo m =
     (case (if length (conn m) = 0 then
              (if cookies \<noteq> [] then
                 (case start_loop create rpc_fetchInfo cookies (conn m) of
                    (Some e, cs) \<Rightarrow> (Some (Inl e), m\<lparr>conn := cs\<rparr>)
                  | (None, cs) \<Rightarrow> (None, m\<lparr>conn := cs\<rparr>))
               else (Some (Inr No_token), m))
            else (None, m)) of
        (Some r, m') \<Rightarrow> (r, m')
      | (None, m') \<Rightarrow>
          (case py_index (conn m') 0 of
             Inl e \<Rightarrow> (Inl e, m')
           | Inr c \<Rightarrow> (Inr (Session c), m')))"

text \<open>
  The loop of \<^verbatim>\<open>restart\<close> that closes the transports; \<^verbatim>\<open>conn._ws.close()\<close> raises on a
  connection without transport.
\<close>

fun close_loop :: "'p MajsoulConnection list \<Rightarrow> runtime \<Rightarrow> error option \<times> runtime" where
  "close_loop [] rt = (None, rt)"
| "close_loop (c # cs) rt =
     (case ws c of
        None \<Rightarrow> (Some AttributeError, rt)
      | Some w \<Rightarrow> close_loop cs (rt\<lparr>closed := insert w (closed rt)\<rparr>))"

text \<open>
  \<^verbatim>\<open>restart\<close>. The tasks that are cancelled are those of \<^verbatim>\<open>self.conn[0]\<close>; the loop that
  closes the transports runs over all of \<open>self.conn\<close>.
\<close>

definition restart ::
  "string list \<Rightarrow> (string \<Rightarrow> error + 'p MajsoulConnection)
     \<Rightarrow> ('p MajsoulConnection \<Rightarrow> error + ResFetchInfo) \<Rightarrow> runtime \<Rightarrow> 'p MajsoulManager
     \<Rightarrow> ((error + 'p started) \<times> 'p MajsoulManager) \<times> runtime" where
  "restart cookies create rpc_fetchInfo rt m =
     (case (if conn m \<noteq> [] then
              close_loop (conn m)
                (if length (conn m) \<ge> 1
                 then rt\<lparr>cancelled := cancelled rt \<union> set (bg_tasks (conn m ! 0))\<rparr>
                 else rt)
            else (None, rt)) of
        (Some e, rt') \<Rightarrow> ((Inl e, m), rt')
      | (None, rt') \<Rightarrow> (start cookies create rpc_fetchInfo (m\<lparr>conn := []\<rparr>), rt'))"

text \<open>
  The guard of \<^verbatim>\<open>MajsoulManager.is_online\<close>, \<^verbatim>\<open>self.conn is []\<close>: the identity of \<open>self.conn\<close> with the
  list object that the expression \<^verbatim>\<open>[]\<close> creates when it is evaluated. That object is
  new, so it is no object that \<open>self.conn\<close> can be bound to, whatever \<open>self.conn\<close> holds.
\<close>

definition is_new_empty_list :: "'a list \<Rightarrow> bool" where
  "is_new_empty_list xs = False"

text \<open>
  \<^verbatim>\<open>MajsoulManager.is_online\<close> (\<open>is_online\<close> alone is the field of a friend).
\<close>

definition manager_is_online ::
  "(nat \<Rightarrow> string \<Rightarrow> response) \<Rightarrow> 'p MajsoulManager \<Rightarrow> error + bool" where
  "manager_is_online server m =
     (if is_new_empty_list (conn m) then Inr False
      else (case py_index (conn m) 0 of
              Inl e \<Rightarrow> Inl e
            | Inr c \<Rightarrow> check_alive server c))"

subsection \<open>Example data\<close>

text \<open>
  A service that knows no account at the first token check and one at the second, and
  a service that never knows one; both answer the login with account 42.
\<close>

definition server_linked_late :: "nat \<Rightarrow> string \<Rightarrow> response" where
  "server_linked_late n method =
     \<lparr>has_account = (n \<noteq> 0), resp_account_id = 42, resp_nickname = ''Bob'', error_code = 0\<rparr>"

definition server_never_linked :: "nat \<Rightarrow> string \<Rightarrow> response" where
  "server_never_linked n method =
     \<lparr>has_account = False, resp_account_id = 42, resp_nickname = ''Bob'', error_code = 0\<rparr>"

definition connected :: "unit MajsoulConnection" where
  "connected = init_connection\<lparr>ws := Some 0\<rparr>"

text \<open>Two sessions, each with its transport and its keep-alive task.\<close>

definition session1 :: "unit MajsoulConnection" where
  "session1 = init_connection\<lparr>ws := Some 10, bg_tasks := [1]\<rparr>"

definition session2 :: "unit MajsoulConnection" where
  "session2 = init_connection\<lparr>ws := Some 20, bg_tasks := [2]\<rparr>"

definition fresh_runtime :: runtime where
  "fresh_runtime = \<lparr>cancelled = {}, closed = {}\<rparr>"

section \<open>Properties of the dispatch loop\<close>

lemma handle_notify_table:
  "req_events (handle_notify s n) = req_events s \<and> res (handle_notify s n) = res s"
  by (simp add: handle_notify_def)

lemma dispatch_decoded_absent:
  "msg_type data = RESPONSE codec \<Longrightarrow> req_events s (req_index data) = None
     \<Longrightarrow> dispatch_decoded codec s data = s"
  by (simp add: dispatch_decoded_def)

lemma dispatch_decoded_present:
  "msg_type data = RESPONSE codec \<Longrightarrow> req_events s (req_index data) = Some ev
     \<Longrightarrow> res (dispatch_decoded codec s data) = (res s)(req_index data \<mapsto> data)
       \<and> req_events (dispatch_decoded codec s data) = (req_events s)(req_index data \<mapsto> True)"
  by (simp add: dispatch_decoded_def Let_def handle_notify_table)

text \<open>
  Claim C1. A RESPONSE frame whose index is not in the correlation table is discarded:
  the iteration raises nothing and leaves the connection as it was, so the loop goes on
  as if the frame had not been received. When the index is in the table, the decoded
  message is stored in the result slot of that index and the event of that index is
  set; the result slot and the event of every other index are as before.
\<close>

theorem dispatch_response:
  assumes "decode_message codec b = Inr data"
      and "msg_type data = RESPONSE codec"
  shows "(req_events s (req_index data) = None \<longrightarrow>
            dispatch_frame codec s (Bytes b) = Inr s
          \<and> dispatch_loop codec s (Bytes b # msgs) = dispatch_loop codec s msgs)
       \<and> (req_events s (req_index data) \<noteq> None \<longrightarrow>
            (\<exists>s'. dispatch_frame codec s (Bytes b) = Inr s'
               \<and> res s' (req_index data) = Some data
               \<and> req_events s' (req_index data) = Some True
               \<and> (\<forall>j. j \<noteq> req_index data \<longrightarrow>
                     res s' j = res s j \<and> req_events s' j = req_events s j)))"
proof (intro conjI impI)
  assume absent: "req_events s (req_index data) = None"
  show frame: "dispatch_frame codec s (Bytes b) = Inr s"
    using assms absent by (simp add: dispatch_frame_def dispatch_decoded_absent)
  show "dispatch_loop codec s (Bytes b # msgs) = dispatch_loop codec s msgs"
    using frame by simp
next
  assume "req_events s (req_index data) \<noteq> None"
  then obtain ev where "req_events s (req_index data) = Some ev" by blast
  from dispatch_decoded_present [OF assms(2) this]
  have r: "res (dispatch_decoded codec s data) = (res s)(req_index data \<mapsto> data)"
    and e: "req_events (dispatch_decoded codec s data) = (req_events s)(req_index data \<mapsto> True)"
    by simp_all
  have "dispatch_frame codec s (Bytes b) = Inr (dispatch_decoded codec s data)"
    using assms(1) by (simp add: dispatch_frame_def)
  then show "\<exists>s'. dispatch_frame codec s (Bytes b) = Inr s'
               \<and> res s' (req_index data) = Some data
               \<and> req_events s' (req_index data) = Some True
               \<and> (\<forall>j. j \<noteq> req_index data \<longrightarrow>
                     res s' j = res s j \<and> req_events s' j = req_events s j)"
    using r e by simp
qed

theorem dispatch_response_witness:
  "decode_message example_codec [3, 5] = Inr example_response
   \<and> msg_type example_response = RESPONSE example_codec
   \<and> req_events (init_connection :: unit MajsoulConnection) (req_index example_response) = None
   \<and> dispatch_frame example_codec init_connection (Bytes [3, 5]) = Inr init_connection
   \<and> dispatch_loop example_codec init_connection [Bytes [3, 5]] = Inr init_connection
   \<and> req_events example_waiting (req_index example_response) = Some False
   \<and> (\<exists>s'. dispatch_frame example_codec example_waiting (Bytes [3, 5]) = Inr s'
         \<and> res s' 5 = Some example_response
         \<and> req_events s' 5 = Some True)"
proof -
  have d: "decode_message example_codec [3, 5] = Inr example_response"
    by (simp add: example_codec_def example_decode_def example_response_def)
  have t: "msg_type example_response = RESPONSE example_codec"
    by (simp add: example_codec_def example_response_def)
  have a: "req_events (init_connection :: unit MajsoulConnection) (req_index example_response) = None"
    by (simp add: init_connection_def)
  have p: "req_events example_waiting (req_index example_response) = Some False"
    by (simp add: example_waiting_def example_response_def)
  have i: "req_index example_response = 5"
    by (simp add: example_response_def)
  from dispatch_response [OF d t, of init_connection "[]"] a
  have absent: "dispatch_frame example_codec init_connection (Bytes [3, 5]) = Inr init_connection
    \<and> dispatch_loop example_codec init_connection [Bytes [3, 5]] = Inr init_connection"
    by simp
  have p': "req_events example_waiting (req_index example_response) \<noteq> None"
    using p by simp
  from dispatch_response [OF d t, of example_waiting "[]", THEN conjunct2, THEN mp, OF p']
  have present: "\<exists>s'. dispatch_frame example_codec example_waiting (Bytes [3, 5]) = Inr s'
         \<and> res s' 5 = Some example_response
         \<and> req_events s' 5 = Some True"
    unfolding i by blast
  from d t a p absent present show ?thesis by blast
qed

section \<open>Properties of the friend-list handler\<close>

lemma FriendChange_add_loop_no_break: "fst (FriendChange_add_loop aid fs m) = False"
  by (induction fs arbitrary: m) simp_all

text \<open>
  Whatever the registry holds, a notification of type 1 appends the friend of the
  notification: the loop is never left by \<^verbatim>\<open>break\<close>, so its \<^verbatim>\<open>else\<close> clause always runs.
\<close>

lemma handle_FriendChange_add_appends:
  "fc_type data = 1 \<Longrightarrow>
     friends (snd (handle_FriendChange data s)) = friends s @ [fc_friend data]"
proof -
  assume t: "fc_type data = 1"
  obtain b m where l: "FriendChange_add_loop (fc_account_id data) (friends s) [] = (b, m)"
    by (cases "FriendChange_add_loop (fc_account_id data) (friends s) []")
  have "b = False"
    using FriendChange_add_loop_no_break [of "fc_account_id data" "friends s" "[]"] l by simp
  then show ?thesis
    using t l by (simp add: handle_FriendChange_def Let_def)
qed

text \<open>
  Claim C3, on the code: friend 7 is in the registry and a notification of type 1 for
  account 7 arrives. The handler appends a second friend of account 7 and reports the
  friend as added; the registry then holds account 7 twice.
\<close>

theorem handle_FriendChange_add_existing:
  "handle_FriendChange notify7_added (conn_with_friends [friend7_playing])
     = ([To_meta [M_added_friend ''Ann'']],
        conn_with_friends [friend7_playing, friend7_idle])
   \<and> map account_id (friends (conn_with_friends [friend7_playing, friend7_idle])) = [7, 7]"
  by (simp add: handle_FriendChange_def notify7_added_def conn_with_friends_def
      init_connection_def friend7_playing_def friend7_idle_def)

section \<open>Properties of the state-change handler\<close>

text \<open>
  Claim C4, on the code: friend 7 is in a match, the notification says that the match
  is over, and the attribution file is missing or not parsable. The handler raises the
  exception of the unguarded second read; nothing is sent and the registry is as before.
\<close>

theorem handle_FriendStateChange_file_error:
  "handle_FriendStateChange example_rooms example_encode notify7_idle Missing
       (conn_with_friends [friend7_playing])
     = (Some FileNotFoundError, [], Missing, conn_with_friends [friend7_playing])
   \<and> handle_FriendStateChange example_rooms example_encode notify7_idle Corrupt
       (conn_with_friends [friend7_playing])
     = (Some JSONDecodeError, [], Corrupt, conn_with_friends [friend7_playing])"
  by (simp add: handle_FriendStateChange_def FriendStateChange_body_def notify7_idle_def
      conn_with_friends_def init_connection_def friend7_playing_def no_game_def game_g1_def
      msg_bool_def guarded_load_def unguarded_load_def)

text \<open>
  Where the handler raises nothing it is idempotent. A friend whose stored state is the
  snapshot already is left as it is, with the message unchanged; after a run without
  exception every friend of the target account holds the snapshot and the file, if it
  was read, has been written, so a second run of the same notification raises nothing,
  sends nothing and leaves the registry as it is.
\<close>

lemma dump_utf8: "dump gr \<noteq> Not_utf8"
  by (cases gr) (simp_all add: dump_def)

lemma guarded_load_utf8: "jf \<noteq> Not_utf8 \<Longrightarrow> \<exists>gr. guarded_load jf = Inr gr"
  by (cases jf) (simp_all add: guarded_load_def)

lemma FriendStateChange_body_synced:
  "is_online friend = as_is_online a \<Longrightarrow> playing friend = as_playing a \<Longrightarrow>
   guarded_load jf = Inr gr \<Longrightarrow>
   FriendStateChange_body R E a friend msg jf = Inr (msg, dump gr, friend)"
  by (simp add: FriendStateChange_body_def Let_def change_state_def)

lemma FriendStateChange_body_friend:
  "FriendStateChange_body R E a friend msg jf = Inr (msg', jf', friend') \<Longrightarrow>
     friend' = change_state friend a \<and> jf' \<noteq> Not_utf8"
  by (auto simp: FriendStateChange_body_def Let_def dump_utf8 split: if_splits sum.splits)

lemma FriendStateChange_loop_synced:
  "FriendStateChange_loop R E a t fs msg jf = (None, fs', m, fl) \<Longrightarrow>
     map account_id fs' = map account_id fs \<and>
     (\<forall>f\<in>set fs'. account_id f = t \<longrightarrow>
         is_online f = as_is_online a \<and> playing f = as_playing a) \<and>
     (jf \<noteq> Not_utf8 \<or> t \<in> set (map account_id fs) \<longrightarrow> fl \<noteq> Not_utf8)"
proof (induction fs arbitrary: msg jf fs' m fl)
  case Nil
  then show ?case by simp
next
  case (Cons f fs)
  show ?case
  proof (cases "account_id f = t")
    case True
    with Cons.prems obtain msg1 jf1 f1 where
      b: "FriendStateChange_body R E a f msg jf = Inr (msg1, jf1, f1)"
      by (auto split: sum.splits)
    obtain r rest' m' fl' where
      l: "FriendStateChange_loop R E a t fs msg1 jf1 = (r, rest', m', fl')"
      by (cases "FriendStateChange_loop R E a t fs msg1 jf1")
    from Cons.prems True b l have eq: "r = None" "fs' = f1 # rest'" "m = m'" "fl = fl'"
      by simp_all
    from FriendStateChange_body_friend [OF b]
    have f1: "f1 = change_state f a" and j1: "jf1 \<noteq> Not_utf8" by simp_all
    from Cons.IH [of msg1 jf1 rest' m' fl'] l eq j1
    have ih: "map account_id rest' = map account_id fs \<and>
      (\<forall>f\<in>set rest'. account_id f = t \<longrightarrow>
          is_online f = as_is_online a \<and> playing f = as_playing a) \<and> fl' \<noteq> Not_utf8"
      by simp
    show ?thesis using ih eq f1 by (simp add: change_state_def)
  next
    case False
    obtain r rest' m' fl' where
      l: "FriendStateChange_loop R E a t fs msg jf = (r, rest', m', fl')"
      by (cases "FriendStateChange_loop R E a t fs msg jf")
    from Cons.prems False l have eq: "r = None" "fs' = f # rest'" "m = m'" "fl = fl'"
      by simp_all
    from Cons.IH [of msg jf rest' m' fl'] l eq
    have ih: "map account_id rest' = map account_id fs \<and>
      (\<forall>f\<in>set rest'. account_id f = t \<longrightarrow>
          is_online f = as_is_online a \<and> playing f = as_playing a) \<and>
      (jf \<noteq> Not_utf8 \<or> t \<in> set (map account_id fs) \<longrightarrow> fl' \<noteq> Not_utf8)"
      by simp
    show ?thesis using ih eq False by auto
  qed
qed

lemma FriendStateChange_loop_replay:
  "\<forall>f\<in>set fs. account_id f = t \<longrightarrow> is_online f = as_is_online a \<and> playing f = as_playing a \<Longrightarrow>
   jf \<noteq> Not_utf8 \<or> t \<notin> set (map account_id fs) \<Longrightarrow>
   \<exists>fl. FriendStateChange_loop R E a t fs msg jf = (None, fs, msg, fl)"
proof (induction fs arbitrary: jf)
  case Nil
  then show ?case by simp
next
  case (Cons f fs)
  show ?case
  proof (cases "account_id f = t")
    case True
    with Cons.prems have s: "is_online f = as_is_online a" "playing f = as_playing a"
      and j: "jf \<noteq> Not_utf8" by auto
    from guarded_load_utf8 [OF j] obtain gr where g: "guarded_load jf = Inr gr" by blast
    from Cons.IH [of "dump gr"] Cons.prems(1) dump_utf8 [of gr]
    obtain fl where "FriendStateChange_loop R E a t fs msg (dump gr) = (None, fs, msg, fl)"
      by auto
    then show ?thesis using True by (simp add: FriendStateChange_body_synced [OF s g])
  next
    case False
    from Cons.IH [of jf] Cons.prems False
    obtain fl where "FriendStateChange_loop R E a t fs msg jf = (None, fs, msg, fl)" by auto
    then show ?thesis using False by simp
  qed
qed

lemma handle_FriendStateChange_replay:
  assumes "handle_FriendStateChange R E data jf s = (None, out, jf', s')"
  shows "(\<forall>f\<in>set (friends s'). account_id f = target_id data \<longrightarrow>
            is_online f = as_is_online (active_state data) \<and> playing f = as_playing (active_state data))
       \<and> (\<exists>jf''. handle_FriendStateChange R E data jf' s' = (None, [], jf'', s'))"
proof -
  obtain r fs' m fl where
    l: "FriendStateChange_loop R E (active_state data) (target_id data) (friends s) [] jf = (r, fs', m, fl)"
    by (cases "FriendStateChange_loop R E (active_state data) (target_id data) (friends s) [] jf")
  from assms l have eq: "r = None" "jf' = fl" "s' = s\<lparr>friends := fs'\<rparr>"
    by (simp_all add: handle_FriendStateChange_def Let_def)
  from FriendStateChange_loop_synced [of R E "active_state data" "target_id data" "friends s" "[]" jf fs' m fl] l eq
  have ids: "map account_id fs' = map account_id (friends s)"
    and sync: "\<forall>f\<in>set fs'. account_id f = target_id data \<longrightarrow>
            is_online f = as_is_online (active_state data) \<and> playing f = as_playing (active_state data)"
    and utf8: "target_id data \<in> set (map account_id (friends s)) \<longrightarrow> fl \<noteq> Not_utf8"
    by simp_all
  from utf8 ids eq have "jf' \<noteq> Not_utf8 \<or> target_id data \<notin> set (map account_id fs')"
    by auto
  from FriendStateChange_loop_replay [OF sync this, of R E "[]"]
  obtain fl2 where "FriendStateChange_loop R E (active_state data) (target_id data) fs' [] jf' = (None, fs', [], fl2)"
    by auto
  then have "handle_FriendStateChange R E data jf' s' = (None, [], fl2, s')"
    using eq by (simp add: handle_FriendStateChange_def Let_def)
  with sync eq show ?thesis by simp
qed

text \<open>
  With a file that holds a JSON object the handler raises nothing: the exception of
  claim C4 needs a file that is missing or not parsable.
\<close>

lemma FriendStateChange_body_readable:
  "\<exists>msg' m' f'. FriendStateChange_body R E a f msg (Json_object m)
                    = Inr (msg', Json_object m', f')"
  unfolding FriendStateChange_body_def Let_def
  by (simp add: guarded_load_def unguarded_load_def set_item_def dump_def split: if_splits)

lemma FriendStateChange_loop_readable:
  "fst (FriendStateChange_loop R E a t fs msg (Json_object m)) = None"
proof (induction fs arbitrary: msg m)
  case Nil
  then show ?case by simp
next
  case (Cons f fs)
  show ?case
  proof (cases "account_id f = t")
    case True
    obtain msg' m' f' where
      "FriendStateChange_body R E a f msg (Json_object m) = Inr (msg', Json_object m', f')"
      using FriendStateChange_body_readable by blast
    then show ?thesis
      using True Cons.IH [of msg' m'] by (auto split: prod.splits)
  next
    case False
    then show ?thesis
      using Cons.IH [of msg m] by (auto split: prod.splits)
  qed
qed

lemma handle_FriendStateChange_readable:
  "fst (handle_FriendStateChange R E data (Json_object m) s) = None"
proof -
  obtain r fs' msg jf where
    l: "FriendStateChange_loop R E (active_state data) (target_id data) (friends s) []
          (Json_object m) = (r, fs', msg, jf)"
    by (cases "FriendStateChange_loop R E (active_state data) (target_id data) (friends s) []
          (Json_object m)")
  with FriendStateChange_loop_readable
         [of R E "active_state data" "target_id data" "friends s" "[]" m]
  have "r = None" by simp
  with l show ?thesis by (simp add: handle_FriendStateChange_def Let_def)
qed

text \<open>
  Claim C5, on the code: the input of claim C4, handled twice. The first application
  raises the exception of the unguarded read, sends nothing and leaves the stored match
  descriptor of friend 7 as it was, which is not the snapshot of the notification; the
  second application does the same.
\<close>

theorem FriendStateChange_twice_file_error:
  "FriendStateChange_twice example_rooms example_encode notify7_idle Missing
       (conn_with_friends [friend7_playing])
     = ((Some FileNotFoundError, [], conn_with_friends [friend7_playing]),
        (Some FileNotFoundError, [], conn_with_friends [friend7_playing]))
   \<and> playing friend7_playing \<noteq> as_playing (active_state notify7_idle)"
  by (simp add: FriendStateChange_twice_def handle_FriendStateChange_def
      FriendStateChange_body_def notify7_idle_def conn_with_friends_def init_connection_def
      friend7_playing_def no_game_def game_g1_def msg_bool_def guarded_load_def
      unguarded_load_def)

section \<open>Properties of the match identifier\<close>

lemma is_digit_ascii: "is_digit c \<Longrightarrow> is_ascii c"
  by (auto simp: is_digit_def is_ascii_def)

lemma is_digit_not_space: "is_digit c \<Longrightarrow> \<not> is_space c"
  by (auto simp: is_digit_def is_space_def)

lemma dropWhile_no_space: "list_all is_digit ds \<Longrightarrow> dropWhile is_space ds = ds"
  by (cases ds) (simp_all add: is_digit_not_space)

lemma rev_digits: "list_all is_digit ds \<Longrightarrow> list_all is_digit (rev ds)"
  by (simp add: list_all_iff)

lemma int_body_ok_digits: "list_all is_digit ds \<Longrightarrow> int_body_ok p ds = (p \<or> ds \<noteq> [])"
  by (induction ds arbitrary: p) auto

text \<open>\<^verbatim>\<open>int\<close> on a string of decimal digits, within the limit and beyond it.\<close>

lemma py_int_sign_digits:
  assumes "ds \<noteq> []" and "list_all is_digit ds"
  shows "(case ds of
            [] \<Rightarrow> (1, [])
          | c # r \<Rightarrow> if c = CHR ''-'' then (- 1, r)
                     else if c = CHR ''+'' then (1, r)
                     else (1, ds)) = (1 :: int, ds)"
proof -
  obtain c r where ds: "ds = c # r" using assms(1) by (cases ds) auto
  have "is_digit c" using assms(2) ds by simp
  then have "c \<noteq> CHR ''-''" "c \<noteq> CHR ''+''" by (auto simp: is_digit_def)
  then show ?thesis by (simp add: ds)
qed

lemma py_int_run_digits:
  assumes "list_all is_digit ds"
  shows "takeWhile (\<lambda>c. is_digit c \<or> c = CHR ''_'') ds = ds"
    and "dropWhile (\<lambda>c. is_digit c \<or> c = CHR ''_'') ds = []"
    and "filter is_digit ds = ds"
    and "dropWhile is_space (rev (dropWhile is_space (rev ds))) = ds"
    and "list_all is_ascii ds"
  using assms
  by (auto simp: list_all_iff is_digit_ascii dropWhile_no_space rev_digits)

lemma py_int_digits:
  assumes "ds \<noteq> []" and "list_all is_digit ds"
    and "int_max_str_digits py = 0 \<or> length ds \<le> int_max_str_digits py"
  shows "py_int py ds = Inr (int (digits_value ds))"
  unfolding py_int_def Let_def
  unfolding py_int_run_digits [OF assms(2)] py_int_sign_digits [OF assms(1,2)]
  unfolding prod.case py_int_run_digits [OF assms(2)]
  using assms py_int_run_digits(5) [OF assms(2)] by (auto simp: int_body_ok_digits)

lemma py_int_limit:
  assumes "list_all is_digit ds" and "640 < length ds"
    and "0 < int_max_str_digits py" and "int_max_str_digits py < length ds"
  shows "py_int py ds = Inl (ValueError ''Exceeds the limit for integer string conversion'')"
proof -
  have ne: "ds \<noteq> []" using assms(2) by auto
  show ?thesis
    unfolding py_int_def Let_def
    unfolding py_int_run_digits [OF assms(1)] py_int_sign_digits [OF ne assms(1)]
    unfolding prod.case py_int_run_digits [OF assms(1)]
    using assms ne py_int_run_digits(5) [OF assms(1)] by (auto simp: int_body_ok_digits)
qed

lemma split_on_nonempty: "split_on c s \<noteq> []"
  by (cases s) (auto split: list.splits)

lemma py_int_789: "py_int py ''789'' = Inr 789"
proof -
  have "list_all is_digit ''789''" by (simp add: is_digit_def)
  moreover have "length ''789'' \<le> 640" by simp
  ultimately show ?thesis
    unfolding py_int_def Let_def
    by (simp add: is_ascii_def is_space_def is_digit_def digits_value_def)
qed

text \<open>
  Claim C9. The identifier \<^verbatim>\<open>123456_a789_2\<close> gives the log id decoded from \<^verbatim>\<open>123456\<close>,
  its third piece being \<^verbatim>\<open>2\<close>, and the target account decoded from 789, its second
  piece starting with \<^verbatim>\<open>a\<close>. A second piece of decimal digits only, no more of them
  than the interpreter's limit on the digits of a converted string allows (4300 unless
  set otherwise), is the target account itself; the log id is then the first piece,
  decoded when the third piece is \<^verbatim>\<open>2\<close>.
\<close>

theorem fetchLogs_ids_example:
  "fetchLogs_ids py dl da ''123456_a789_2'' = Inr (dl ''123456'', Some (da 789))
   \<and> (split_on CHR ''_'' game_id = l # ds # others \<and> ds \<noteq> [] \<and> list_all is_digit ds
        \<and> (int_max_str_digits py = 0 \<or> length ds \<le> int_max_str_digits py) \<longrightarrow>
        fetchLogs_ids py dl da game_id
          = Inr (case others of
                   [] \<Rightarrow> l
                 | v # _ \<Rightarrow> if v = ''2'' then dl l else l,
                 Some (int (digits_value ds))))"
proof (intro conjI impI)
  have "split_on CHR ''_'' ''123456_a789_2'' = [''123456'', ''a789'', ''2'']"
    by simp
  then show "fetchLogs_ids py dl da ''123456_a789_2'' = Inr (dl ''123456'', Some (da 789))"
    by (simp add: fetchLogs_ids_def py_index_def py_int_789)
next
  assume a: "split_on CHR ''_'' game_id = l # ds # others \<and> ds \<noteq> [] \<and> list_all is_digit ds
        \<and> (int_max_str_digits py = 0 \<or> length ds \<le> int_max_str_digits py)"
  then obtain c r where ds: "ds = c # r" by (cases ds) auto
  have "is_digit c" using a ds by simp
  then have c: "c \<noteq> CHR ''a''" by (auto simp: is_digit_def)
  have i: "py_int py (c # r) = Inr (int (digits_value (c # r)))"
    using a py_int_digits [of ds py] by (simp add: ds)
  show "fetchLogs_ids py dl da game_id
          = Inr (case others of
                   [] \<Rightarrow> l
                 | v # _ \<Rightarrow> if v = ''2'' then dl l else l,
                 Some (int (digits_value ds)))"
    using a c i unfolding ds
    by (cases others) (simp_all add: fetchLogs_ids_def py_index_def Let_def)
qed

theorem fetchLogs_ids_example_witness:
  "fetchLogs_ids example_interpreter example_decode_log_id example_decode_account_id
       ''123456_a789_2''
     = Inr (''654321'', Some (- 211))
   \<and> split_on CHR ''_'' ''123456_789'' = [''123456'', ''789'']
   \<and> list_all is_digit ''789''
   \<and> length ''789'' \<le> int_max_str_digits example_interpreter
   \<and> digits_value ''789'' = 789
   \<and> fetchLogs_ids example_interpreter example_decode_log_id example_decode_account_id
       ''123456_789''
     = Inr (''123456'', Some 789)"
proof -
  have s: "split_on CHR ''_'' ''123456_789'' = ''123456'' # ''789'' # []" by simp
  have d: "list_all is_digit ''789''" by (simp add: is_digit_def)
  have n: "length ''789'' \<le> int_max_str_digits example_interpreter"
    by (simp add: example_interpreter_def)
  have v: "digits_value ''789'' = 789" by (simp add: digits_value_def)
  have first: "fetchLogs_ids example_interpreter example_decode_log_id
       example_decode_account_id ''123456_a789_2'' = Inr (''654321'', Some (- 211))"
    using fetchLogs_ids_example
            [of example_interpreter example_decode_log_id example_decode_account_id]
    by (simp add: example_decode_log_id_def example_decode_account_id_def)
  from fetchLogs_ids_example
         [of example_interpreter example_decode_log_id example_decode_account_id
             "''123456_789''" "''123456''" "''789''" "[]"] s d n
  have "fetchLogs_ids example_interpreter example_decode_log_id example_decode_account_id
          ''123456_789'' = Inr (''123456'', Some (int (digits_value ''789'')))"
    by simp
  with s d n v first show ?thesis by simp
qed

section \<open>Properties of the action list\<close>

lemma records_loop_acc:
  "records_loop W L vs acc =
     (case spec_unwrap_all W L vs of Inl e \<Rightarrow> Inl e | Inr items \<Rightarrow> Inr (acc @ items))"
  by (induction vs arbitrary: acc) (auto split: sum.splits)

lemma actions_loop_acc:
  "actions_loop W L acts acc =
     (case spec_unwrap_all W L (filter (\<lambda>r. r \<noteq> []) (map result acts)) of
        Inl e \<Rightarrow> Inl e
      | Inr items \<Rightarrow> Inr (acc @ items))"
  by (induction acts arbitrary: acc) (auto split: sum.splits)

lemma spec_unwrap_all_Inr:
  "spec_unwrap_all W L vs = Inr items \<longleftrightarrow> map (unwrap_record W L) vs = map Inr items"
proof (induction vs arbitrary: items)
  case Nil
  then show ?case by auto
next
  case (Cons v vs)
  show ?case
  proof (cases "unwrap_record W L v")
    case (Inl e)
    then show ?thesis by (cases items) simp_all
  next
    case (Inr item)
    note item = this
    show ?thesis
    proof (cases items)
      case Nil
      then show ?thesis using item by (simp split: sum.splits)
    next
      case (Cons i others)
      have "spec_unwrap_all W L vs = Inr others
              \<longleftrightarrow> map (unwrap_record W L) vs = map Inr others"
        by (rule Cons.IH)
      then show ?thesis using item Cons by (auto split: sum.splits)
    qed
  qed
qed

lemma unwrap_record_Inr:
  "unwrap_record W L v = Inr item \<Longrightarrow>
     \<exists>raw. W v = Inr raw \<and> 2 < length (split_on CHR ''.'' (wr_name raw))
        \<and> item_name item = split_on CHR ''.'' (wr_name raw) ! 2
        \<and> L (item_name item) (wr_data raw) = Inr (item_data item)"
  by (auto simp: unwrap_record_def py_index_def split: sum.splits if_splits)

text \<open>
  Claim C6 as stated fails on a record of a version before the cutoff whose flat list
  is empty: the action list is then built from the structured actions, not from the
  (empty) flat list.
\<close>

theorem fetchLogs_action_list_old_empty_records:
  "version payload_old_structured < 210715
   \<and> spec_unwrap_all example_Wrapper_parse example_liblq_parse (records payload_old_structured)
       = Inr []
   \<and> fetchLogs_action_list example_Wrapper_parse example_liblq_parse payload_old_structured
       = Inr [\<lparr>item_name = ''RecordNewRound'', item_data = [7]\<rparr>]
   \<and> fetchLogs_action_list example_Wrapper_parse example_liblq_parse payload_old_structured
       \<noteq> spec_unwrap_all example_Wrapper_parse example_liblq_parse
           (records payload_old_structured)"
  by (simp add: payload_old_structured_def fetchLogs_action_list_def unwrap_record_def
      example_Wrapper_parse_def example_liblq_parse_def py_index_def)

text \<open>
  Claim C6, amended. When the version is before 210715 and the flat list of records is
  not empty, the action list is the flat list unwrapped, in its order. Otherwise, that
  is at or after the cutoff or with an empty flat list, it is the results of the
  structured actions whose result is not empty, unwrapped in their order. An unwrapped
  item has as its name the third piece, cut at dots, of the name of its wrapper, and as
  its data the wrapper's data decoded by the class of that name. The list is returned
  exactly when every record unwraps, item by item in the order of the records.
\<close>

theorem fetchLogs_action_list_branches:
  "(version p < 210715 \<and> records p \<noteq> [] \<longrightarrow>
      fetchLogs_action_list W L p = spec_unwrap_all W L (records p))
   \<and> (\<not> (version p < 210715 \<and> records p \<noteq> []) \<longrightarrow>
      fetchLogs_action_list W L p
        = spec_unwrap_all W L (filter (\<lambda>r. r \<noteq> []) (map result (actions p))))
   \<and> (\<forall>v item. unwrap_record W L v = Inr item \<longrightarrow>
        (\<exists>raw. W v = Inr raw \<and> 2 < length (split_on CHR ''.'' (wr_name raw))
           \<and> item_name item = split_on CHR ''.'' (wr_name raw) ! 2
           \<and> L (item_name item) (wr_data raw) = Inr (item_data item)))
   \<and> (\<forall>vs items. spec_unwrap_all W L vs = Inr items
        \<longleftrightarrow> map (unwrap_record W L) vs = map Inr items)"
proof (intro conjI impI allI)
  assume "version p < 210715 \<and> records p \<noteq> []"
  then show "fetchLogs_action_list W L p = spec_unwrap_all W L (records p)"
    by (simp add: fetchLogs_action_list_def records_loop_acc split: sum.splits)
next
  assume "\<not> (version p < 210715 \<and> records p \<noteq> [])"
  then show "fetchLogs_action_list W L p
        = spec_unwrap_all W L (filter (\<lambda>r. r \<noteq> []) (map result (actions p)))"
    by (auto simp: fetchLogs_action_list_def actions_loop_acc split: sum.splits)
next
  fix v item
  assume "unwrap_record W L v = Inr item"
  then show "\<exists>raw. W v = Inr raw \<and> 2 < length (split_on CHR ''.'' (wr_name raw))
           \<and> item_name item = split_on CHR ''.'' (wr_name raw) ! 2
           \<and> L (item_name item) (wr_data raw) = Inr (item_data item)"
    by (rule unwrap_record_Inr)
next
  fix vs items
  show "spec_unwrap_all W L vs = Inr items
        \<longleftrightarrow> map (unwrap_record W L) vs = map Inr items"
    by (rule spec_unwrap_all_Inr)
qed

theorem fetchLogs_action_list_branches_witness:
  "version payload_old_flat < 210715 \<and> records payload_old_flat \<noteq> []
   \<and> fetchLogs_action_list example_Wrapper_parse example_liblq_parse payload_old_flat
       = Inr [\<lparr>item_name = ''RecordNewRound'', item_data = [1]\<rparr>,
              \<lparr>item_name = ''RecordNewRound'', item_data = [2]\<rparr>]
   \<and> \<not> version payload_new < 210715
   \<and> fetchLogs_action_list example_Wrapper_parse example_liblq_parse payload_new
       = Inr [\<lparr>item_name = ''RecordNewRound'', item_data = [7]\<rparr>,
              \<lparr>item_name = ''RecordNewRound'', item_data = [8]\<rparr>]"
proof -
  have u: "\<And>b. unwrap_record example_Wrapper_parse example_liblq_parse b
            = Inr \<lparr>item_name = ''RecordNewRound'', item_data = b\<rparr>"
    by (simp add: unwrap_record_def example_Wrapper_parse_def example_liblq_parse_def
        py_index_def)
  have old: "version payload_old_flat < 210715 \<and> records payload_old_flat \<noteq> []"
    by (simp add: payload_old_flat_def)
  have new: "\<not> (version payload_new < 210715 \<and> records payload_new \<noteq> [])"
    by (simp add: payload_new_def)
  from fetchLogs_action_list_branches
         [of payload_old_flat example_Wrapper_parse example_liblq_parse] old
  have "fetchLogs_action_list example_Wrapper_parse example_liblq_parse payload_old_flat
          = spec_unwrap_all example_Wrapper_parse example_liblq_parse (records payload_old_flat)"
    by blast
  then have r1: "fetchLogs_action_list example_Wrapper_parse example_liblq_parse payload_old_flat
       = Inr [\<lparr>item_name = ''RecordNewRound'', item_data = [1]\<rparr>,
              \<lparr>item_name = ''RecordNewRound'', item_data = [2]\<rparr>]"
    by (simp add: payload_old_flat_def u)
  from fetchLogs_action_list_branches
         [of payload_new example_Wrapper_parse example_liblq_parse] new
  have "fetchLogs_action_list example_Wrapper_parse example_liblq_parse payload_new
          = spec_unwrap_all example_Wrapper_parse example_liblq_parse
              (filter (\<lambda>r. r \<noteq> []) (map result (actions payload_new)))"
    by blast
  then have r2: "fetchLogs_action_list example_Wrapper_parse example_liblq_parse payload_new
       = Inr [\<lparr>item_name = ''RecordNewRound'', item_data = [7]\<rparr>,
              \<lparr>item_name = ''RecordNewRound'', item_data = [8]\<rparr>]"
    by (simp add: payload_new_def u)
  from old new r1 r2 show ?thesis by (simp add: payload_new_def)
qed

section \<open>Properties of the authentication\<close>

text \<open>
  Claim C8. On a connection with a transport, when the first token check reports no
  account: the client sleeps (2 seconds) and checks again, once. If the second check
  reports no account either, the login fails with the error of the check after exactly
  these two calls. If it reports an account, the login goes on with the login call,
  makes no further check, and succeeds exactly when the login yields an account id and
  the login beat reports no error. Either way the check was called twice.
\<close>

theorem accessTokenLogin_retry:
  assumes "ws s \<noteq> None"
      and "\<not> has_account (server 0 ''.lq.Lobby.oauth2Check'')"
  shows "(\<not> has_account (server 1 ''.lq.Lobby.oauth2Check'') \<longrightarrow>
            accessTokenLogin server s
              = (Some (ValueError ''Failed to check account''),
                 [Rpc ''.lq.Lobby.oauth2Check'', Sleep 2, Rpc ''.lq.Lobby.oauth2Check''], s))
       \<and> (has_account (server 1 ''.lq.Lobby.oauth2Check'') \<longrightarrow>
            (\<exists>r t s'. accessTokenLogin server s
                 = (r, [Rpc ''.lq.Lobby.oauth2Check'', Sleep 2, Rpc ''.lq.Lobby.oauth2Check'',
                        Rpc ''.lq.Lobby.oauth2Login''] @ t, s')
               \<and> Rpc ''.lq.Lobby.oauth2Check'' \<notin> set t
               \<and> r \<noteq> Some (ValueError ''Failed to check account'')
               \<and> (r = None \<longleftrightarrow> resp_account_id (server 2 ''.lq.Lobby.oauth2Login'') \<noteq> 0
                                 \<and> error_code (server 3 ''.lq.Lobby.loginBeat'') = 0)))
       \<and> count_list (fst (snd (accessTokenLogin server s))) (Rpc ''.lq.Lobby.oauth2Check'') = 2"
proof -
  obtain w where w: "ws s = Some w" using assms(1) by auto
  show ?thesis
    using assms(2) w
    by (auto simp: accessTokenLogin_def rpc_call_def Let_def numeral_2_eq_2 numeral_3_eq_3)
qed

theorem accessTokenLogin_retry_witness:
  "ws connected \<noteq> None
   \<and> \<not> has_account (server_linked_late 0 ''.lq.Lobby.oauth2Check'')
   \<and> has_account (server_linked_late 1 ''.lq.Lobby.oauth2Check'')
   \<and> \<not> has_account (server_never_linked 1 ''.lq.Lobby.oauth2Check'')
   \<and> accessTokenLogin server_never_linked connected
       = (Some (ValueError ''Failed to check account''),
          [Rpc ''.lq.Lobby.oauth2Check'', Sleep 2, Rpc ''.lq.Lobby.oauth2Check''], connected)
   \<and> count_list (fst (snd (accessTokenLogin server_linked_late connected)))
       (Rpc ''.lq.Lobby.oauth2Check'') = 2
   \<and> fst (accessTokenLogin server_linked_late connected) = None"
proof -
  have w: "ws connected \<noteq> None" by (simp add: connected_def)
  have l0: "\<not> has_account (server_linked_late 0 ''.lq.Lobby.oauth2Check'')"
    and l1: "has_account (server_linked_late 1 ''.lq.Lobby.oauth2Check'')"
    and n0: "\<not> has_account (server_never_linked 0 ''.lq.Lobby.oauth2Check'')"
    and n1: "\<not> has_account (server_never_linked 1 ''.lq.Lobby.oauth2Check'')"
    by (simp_all add: server_linked_late_def server_never_linked_def)
  from accessTokenLogin_retry [of connected server_never_linked] w n0 n1
  have never: "accessTokenLogin server_never_linked connected
       = (Some (ValueError ''Failed to check account''),
          [Rpc ''.lq.Lobby.oauth2Check'', Sleep 2, Rpc ''.lq.Lobby.oauth2Check''], connected)"
    by blast
  from accessTokenLogin_retry [of connected server_linked_late] w l0
  have twice: "count_list (fst (snd (accessTokenLogin server_linked_late connected)))
       (Rpc ''.lq.Lobby.oauth2Check'') = 2"
    by blast
  from accessTokenLogin_retry [of connected server_linked_late] w l0 l1
  obtain r t s' where
    "accessTokenLogin server_linked_late connected
       = (r, [Rpc ''.lq.Lobby.oauth2Check'', Sleep 2, Rpc ''.lq.Lobby.oauth2Check'',
              Rpc ''.lq.Lobby.oauth2Login''] @ t, s')"
    and "r = None \<longleftrightarrow> resp_account_id (server_linked_late 2 ''.lq.Lobby.oauth2Login'') \<noteq> 0
                    \<and> error_code (server_linked_late 3 ''.lq.Lobby.loginBeat'') = 0"
    by blast
  then have ok: "fst (accessTokenLogin server_linked_late connected) = None"
    by (simp add: server_linked_late_def)
  from w l0 l1 n1 never twice ok show ?thesis by blast
qed

section \<open>Properties of the manager\<close>

lemma close_loop_closed:
  "close_loop cs rt = (None, rt') \<Longrightarrow>
     closed rt' = closed rt \<union> {w. Some w \<in> set (map ws cs)} \<and> cancelled rt' = cancelled rt"
  by (induction cs arbitrary: rt) (auto split: option.splits)

text \<open>
  What \<^verbatim>\<open>restart\<close> does on a manager with sessions that all have a transport: it
  cancels the tasks of the first session and of no other, closes every transport, and
  returns what \<^verbatim>\<open>start\<close> returns on the manager without sessions.
\<close>

lemma close_loop_all_open:
  "\<forall>c\<in>set cs. ws c \<noteq> None \<Longrightarrow> fst (close_loop cs rt) = None"
  by (induction cs arbitrary: rt) (auto split: option.splits)

lemma restart_effect:
  assumes "conn m \<noteq> []" and "\<forall>c\<in>set (conn m). ws c \<noteq> None"
  shows "\<exists>rt'. restart cookies create rpc rt m
                 = (start cookies create rpc (m\<lparr>conn := []\<rparr>), rt')
             \<and> cancelled rt' = cancelled rt \<union> set (bg_tasks (hd (conn m)))
             \<and> closed rt' = closed rt \<union> {w. Some w \<in> set (map ws (conn m))}"
proof -
  let ?rt0 = "rt\<lparr>cancelled := cancelled rt \<union> set (bg_tasks (conn m ! 0))\<rparr>"
  obtain rt' where c: "close_loop (conn m) ?rt0 = (None, rt')"
    using close_loop_all_open [OF assms(2), of ?rt0]
    by (cases "close_loop (conn m) ?rt0") auto
  from close_loop_closed [OF c]
  have "closed rt' = closed rt \<union> {w. Some w \<in> set (map ws (conn m))}"
    and "cancelled rt' = cancelled rt \<union> set (bg_tasks (conn m ! 0))"
    by simp_all
  moreover have "conn m ! 0 = hd (conn m)"
    using assms(1) by (simp add: hd_conv_nth)
  moreover have "restart cookies create rpc rt m
                 = (start cookies create rpc (m\<lparr>conn := []\<rparr>), rt')"
    using assms(1) c by (simp add: restart_def Suc_le_eq)
  ultimately show ?thesis by auto
qed

text \<open>
  Claim C7, on the code: a manager that holds two sessions, each with a keep-alive
  task, is restarted (with no stored token, so that \<^verbatim>\<open>start\<close> builds nothing). Both
  transports are closed and the sessions are discarded, but only task 1, of the first
  session, is cancelled: task 2, of the second session, is not.
\<close>

theorem restart_two_sessions:
  "restart [] create rpc fresh_runtime \<lparr>conn = [session1, session2]\<rparr>
     = ((Inr No_token, \<lparr>conn = []\<rparr>), \<lparr>cancelled = {1}, closed = {20, 10}\<rparr>)
   \<and> bg_tasks session2 = [2]
   \<and> 2 \<notin> cancelled (snd (restart [] create rpc fresh_runtime \<lparr>conn = [session1, session2]\<rparr>))"
  by (simp add: restart_def start_def session1_def session2_def init_connection_def
      fresh_runtime_def)

text \<open>
  Claim C10. On a manager without sessions, \<^verbatim>\<open>is_online\<close> does not return \<^verbatim>\<open>False\<close>: the
  guard does not hold and the access to the first session raises \<^verbatim>\<open>IndexError\<close>. The
  guard holds on no manager.
\<close>

theorem manager_is_online_empty:
  "manager_is_online server \<lparr>conn = []\<rparr> = Inl IndexError
   \<and> manager_is_online server \<lparr>conn = []\<rparr> \<noteq> Inr False
   \<and> \<not> is_new_empty_list (conn m)"
  by (simp add: manager_is_online_def is_new_empty_list_def py_index_def)

end
